theory Spec2Isabelle
  imports Complex_Main "HOL-Library.Word" "HOL-Library.Sublist"
begin

section \<open>JavaScript values\<close>

text \<open>
  The client is TypeScript running on a JavaScript engine. A string is a sequence of
  UTF-16 code units, so it is modelled as a list of 16-bit words; \<open>ascii\<close> embeds an
  ASCII literal. A decoded response body is a JSON value; numbers are restricted to the
  integers, printed in plain decimal (the fractional and exponent forms of IEEE doubles
  are outside the model). \<open>JObj\<close> lists an object's own properties in enumeration
  order, each key once, as \<open>JSON.parse\<close> produces them. \<open>undefined\<close> is \<open>None\<close> of
  \<open>jsval\<close>.
\<close>

type_synonym jschar = "16 word"
type_synonym jsstring = "jschar list"

definition ascii :: "string \<Rightarrow> jsstring" where
  "ascii s = map (\<lambda>c. of_nat (of_char c)) s"

datatype json =
    JNull
  | JBool bool
  | JNum int
  | JStr jsstring
  | JArr "json list"
  | JObj "(jsstring \<times> json) list"

type_synonym jsval = "json option"

text \<open>\<open>String.prototype.trim\<close>: strips WhiteSpace and LineTerminator code units from both ends.\<close>

definition isWhiteSpace :: "jschar \<Rightarrow> bool" where
  "isWhiteSpace c \<longleftrightarrow>
     c = 0x0009 \<or> c = 0x000A \<or> c = 0x000B \<or> c = 0x000C \<or> c = 0x000D \<or> c = 0x0020 \<or>
     c = 0x00A0 \<or> c = 0x1680 \<or> (0x2000 \<le> c \<and> c \<le> 0x200A) \<or>
     c = 0x2028 \<or> c = 0x2029 \<or> c = 0x202F \<or> c = 0x205F \<or> c = 0x3000 \<or> c = 0xFEFF"

definition trim :: "jsstring \<Rightarrow> jsstring" where
  "trim s = rev (dropWhile isWhiteSpace (rev (dropWhile isWhiteSpace s)))"

text \<open>\<open>String(n)\<close> for an integer \<open>n\<close>: decimal digits, with a sign when negative.\<close>

function digits :: "int \<Rightarrow> jsstring" where
  "digits n = (if n < 10 then [of_int (48 + n)] else digits (n div 10) @ [of_int (48 + n mod 10)])"
  by pat_completeness auto
termination
  by (relation "measure nat") auto

declare digits.simps [simp del]

definition String_int :: "int \<Rightarrow> jsstring" where
  "String_int n = (if n < 0 then ascii ''-'' @ digits (- n) else digits n)"

text \<open>
  The exceptions of the model. \<open>Error m\<close> is any thrown error object whose \<open>message\<close> is
  \<open>m\<close>: the \<open>TypeError\<close> a failed \<open>fetch\<close> rejects with, the \<open>SyntaxError\<close> of
  \<open>res.json()\<close> on an undecodable body, an \<open>Error\<close> the code constructs. The engine
  itself raises a \<open>TypeError\<close> in two places the code can reach: reading a property
  of \<open>null\<close>, and converting to a string an object that has no callable \<open>toString\<close>.
  The wording of those messages is the engine's, so it is a parameter.
\<close>

datatype exn = Error (message: jsstring)

datatype type_error = ReadNull jsstring | NotPrimitive

record engine =
  typeErrorMessage :: "type_error \<Rightarrow> jsstring"

definition TypeError :: "engine \<Rightarrow> type_error \<Rightarrow> exn" where
  "TypeError eng te = Error (typeErrorMessage eng te)"

text \<open>
  Property reads. \<open>own_property v k\<close> is \<open>v.k\<close> on a value that is not \<open>null\<close>, for a key
  \<open>k\<close> that no prototype defines (every key the client reads: \<open>detail\<close>,
  \<open>message\<close>, \<open>issues\<close>, \<open>sql\<close>, \<open>rows\<close>, \<open>answer\<close>): an object gives its own
  property, anything else \<open>undefined\<close>. \<open>opt_chain v k\<close> is \<open>v?.k\<close> and \<open>member\<close>
  is \<open>v.k\<close>, which throws on \<open>null\<close>.
\<close>

definition own_property :: "json \<Rightarrow> jsstring \<Rightarrow> jsval" where
  "own_property v k = (case v of JObj kvs \<Rightarrow> map_of kvs k | _ \<Rightarrow> None)"

definition opt_chain :: "jsval \<Rightarrow> jsstring \<Rightarrow> jsval" where
  "opt_chain v k = (case v of None \<Rightarrow> None | Some JNull \<Rightarrow> None | Some w \<Rightarrow> own_property w k)"

definition member :: "engine \<Rightarrow> json \<Rightarrow> jsstring \<Rightarrow> exn + jsval" where
  "member eng v k = (if v = JNull then Inl (TypeError eng (ReadNull k)) else Inr (own_property v k))"

definition truthy :: "jsval \<Rightarrow> bool" where
  "truthy v =
     (case v of
        None \<Rightarrow> False
      | Some JNull \<Rightarrow> False
      | Some (JBool b) \<Rightarrow> b
      | Some (JNum n) \<Rightarrow> n \<noteq> 0
      | Some (JStr s) \<Rightarrow> s \<noteq> []
      | Some (JArr _) \<Rightarrow> True
      | Some (JObj _) \<Rightarrow> True)"

text \<open>
  \<open>ToString\<close>, as a template literal and \<open>new Error(v)\<close> apply it, and
  \<open>Array.prototype.join\<close>, which prints \<open>null\<close> elements as the empty string. A
  parsed object prints as \<open>[object Object]\<close> unless it has an own \<open>toString\<close>
  property: that shadows the inherited method with a value that is not callable, and
  the conversion throws.
\<close>

fun ToString_json :: "json \<Rightarrow> type_error + jsstring"
  and join :: "jsstring \<Rightarrow> json list \<Rightarrow> type_error + jsstring" where
  "ToString_json JNull = Inr (ascii ''null'')"
| "ToString_json (JBool b) = Inr (if b then ascii ''true'' else ascii ''false'')"
| "ToString_json (JNum n) = Inr (String_int n)"
| "ToString_json (JStr s) = Inr s"
| "ToString_json (JArr xs) = join (ascii '','') xs"
| "ToString_json (JObj kvs) =
     (if ascii ''toString'' \<in> fst ` set kvs then Inl NotPrimitive
      else Inr (ascii ''[object Object]''))"
| "join sep [] = Inr []"
| "join sep (x # xs) =
     (case (if x = JNull then Inr [] else ToString_json x) of
        Inl e \<Rightarrow> Inl e
      | Inr s \<Rightarrow>
          (case join sep xs of
             Inl e \<Rightarrow> Inl e
           | Inr r \<Rightarrow> Inr (s @ (if xs = [] then [] else sep) @ r)))"

definition ToString :: "engine \<Rightarrow> jsval \<Rightarrow> exn + jsstring" where
  "ToString eng v =
     (case v of
        None \<Rightarrow> Inr (ascii ''undefined'')
      | Some w \<Rightarrow> (case ToString_json w of Inl te \<Rightarrow> Inl (TypeError eng te) | Inr s \<Rightarrow> Inr s))"

text \<open>
  \<open>JSON.stringify(v, null, gap)\<close> on a parsed value. Strings are quoted with the
  escapes of \<open>QuoteJSONString\<close>; a lone surrogate is escaped, a surrogate pair is kept.
\<close>

definition hexdigit :: "int \<Rightarrow> jschar" where
  "hexdigit d = (if d < 10 then of_int (48 + d) else of_int (87 + d))"

definition unicode_escape :: "jschar \<Rightarrow> jsstring" where
  "unicode_escape c =
     (let n = uint c
      in [0x005C, 0x0075, hexdigit (n div 4096), hexdigit (n div 256 mod 16),
          hexdigit (n div 16 mod 16), hexdigit (n mod 16)])"

definition isLeadingSurrogate :: "jschar \<Rightarrow> bool" where
  "isLeadingSurrogate c \<longleftrightarrow> 0xD800 \<le> c \<and> c \<le> 0xDBFF"

definition isTrailingSurrogate :: "jschar \<Rightarrow> bool" where
  "isTrailingSurrogate c \<longleftrightarrow> 0xDC00 \<le> c \<and> c \<le> 0xDFFF"

definition quote_unit :: "jschar \<Rightarrow> jsstring" where
  "quote_unit c =
     (if c = 0x0008 then [0x005C, 0x0062]
      else if c = 0x0009 then [0x005C, 0x0074]
      else if c = 0x000A then [0x005C, 0x006E]
      else if c = 0x000C then [0x005C, 0x0066]
      else if c = 0x000D then [0x005C, 0x0072]
      else if c = 0x0022 then [0x005C, 0x0022]
      else if c = 0x005C then [0x005C, 0x005C]
      else if c < 0x0020 \<or> isLeadingSurrogate c \<or> isTrailingSurrogate c then unicode_escape c
      else [c])"

fun quote_units :: "jsstring \<Rightarrow> jsstring" where
  "quote_units [] = []"
| "quote_units [c] = quote_unit c"
| "quote_units (c # d # cs) =
     (if isLeadingSurrogate c \<and> isTrailingSurrogate d then c # d # quote_units cs
      else quote_unit c @ quote_units (d # cs))"

definition QuoteJSONString :: "jsstring \<Rightarrow> jsstring" where
  "QuoteJSONString s = [0x0022] @ quote_units s @ [0x0022]"

fun separated :: "jsstring \<Rightarrow> jsstring list \<Rightarrow> jsstring" where
  "separated sep [] = []"
| "separated sep [x] = x"
| "separated sep (x # y # ys) = x @ sep @ separated sep (y # ys)"

definition bracketed :: "jsstring \<Rightarrow> jsstring \<Rightarrow> jsstring \<Rightarrow> jsstring \<Rightarrow> jsstring list \<Rightarrow> jsstring" where
  "bracketed opening closing gap indent parts =
     (if parts = [] then opening @ closing
      else if gap = [] then opening @ separated (ascii '','') parts @ closing
      else opening @ [0x000A] @ indent @ gap
           @ separated (ascii '','' @ [0x000A] @ indent @ gap) parts
           @ [0x000A] @ indent @ closing)"

fun stringify :: "jsstring \<Rightarrow> jsstring \<Rightarrow> json \<Rightarrow> jsstring" where
  "stringify gap indent JNull = ascii ''null''"
| "stringify gap indent (JBool b) = (if b then ascii ''true'' else ascii ''false'')"
| "stringify gap indent (JNum n) = String_int n"
| "stringify gap indent (JStr s) = QuoteJSONString s"
| "stringify gap indent (JArr xs) =
     bracketed (ascii ''['') (ascii '']'') gap indent (map (stringify gap (indent @ gap)) xs)"
| "stringify gap indent (JObj kvs) =
     bracketed (ascii ''{'') (ascii ''}'') gap indent
       (map (\<lambda>kv. QuoteJSONString (fst kv) @ ascii '':'' @ (if gap = [] then [] else ascii '' '')
                    @ stringify gap (indent @ gap) (snd kv)) kvs)"

definition JSON_stringify :: "json \<Rightarrow> jsstring" where
  "JSON_stringify v = stringify [] [] v"

definition JSON_stringify_2 :: "json \<Rightarrow> jsstring" where
  "JSON_stringify_2 v = stringify (ascii ''  '') [] v"


section \<open>Requests and their outcomes\<close>

text \<open>
  A request is what the client hands to \<open>fetch\<close>: the method (the field
  \<open>http_method\<close>), the address, the query parameters where the client builds them
  with \<open>URLSearchParams\<close> (kept as the list of pairs, before serialisation), and the
  body. The constant \<open>Content-Type\<close> header is left out. The outcome of a request is
  either no response (\<open>fetch\<close> rejects), or a response with its \<open>ok\<close> flag whose body
  \<open>res.json()\<close> either fails to decode or decodes to a payload. \<open>failed\<close> holds of
  the outcomes the specification calls a failed request: no response, a status that is
  not \<open>ok\<close>, or a body that does not decode.
\<close>

record request =
  http_method :: jsstring
  url :: jsstring
  query :: "(jsstring \<times> jsstring) list"
  body :: "jsstring option"

datatype 'a fetched =
    NoResponse exn
  | Response bool "exn + 'a"

definition failed :: "'a fetched \<Rightarrow> bool" where
  "failed r = (case r of NoResponse e \<Rightarrow> True | Response ok b \<Rightarrow> \<not> ok \<or> isl b)"

section \<open>Transport client (app/src/hooks/useApi.ts)\<close>

definition base :: "jsstring \<Rightarrow> jsstring" where
  "base API_BASE = (if API_BASE \<noteq> [] \<and> last API_BASE = 0x002F then butlast API_BASE else API_BASE)"

record api_state =
  loading :: bool
  error :: "jsstring option"

datatype setter = setLoading bool | setError "jsstring option"

fun set_state :: "api_state \<Rightarrow> setter \<Rightarrow> api_state" where
  "set_state s (setLoading b) = s\<lparr>loading := b\<rparr>"
| "set_state s (setError e) = s\<lparr>error := e\<rparr>"

definition run_setters :: "api_state \<Rightarrow> setter list \<Rightarrow> api_state" where
  "run_setters s xs = foldl set_state s xs"

text \<open>The states a hook goes through while a list of setter calls runs, the first one included.\<close>

fun states :: "api_state \<Rightarrow> setter list \<Rightarrow> api_state list" where
  "states s [] = [s]"
| "states s (x # xs) = s # states (set_state s x) xs"

text \<open>The number of places where a flag goes from true to false.\<close>

fun falls :: "bool list \<Rightarrow> nat" where
  "falls (a # b # bs) = (if a \<and> \<not> b then 1 else 0) + falls (b # bs)"
| "falls bs = 0"

text \<open>
  Both calls open with the same two setter calls, and end in the same
  \<open>try\<close>/\<open>catch\<close>/\<open>finally\<close>: a response that is not \<open>ok\<close> throws an \<open>Error\<close> made
  from \<open>data?.detail?.message || JSON.stringify(data)\<close>; whatever was thrown has its
  message stored by the \<open>catch\<close> and is thrown again; \<open>finally\<close> clears \<open>loading\<close>.
\<close>

definition call_start :: "setter list" where
  "call_start = [setLoading True, setError None]"

definition new_Error :: "engine \<Rightarrow> jsval \<Rightarrow> exn" where
  "new_Error eng v = (case ToString eng v of Inl e \<Rightarrow> e | Inr m \<Rightarrow> Error m)"

definition try_block :: "engine \<Rightarrow> json fetched \<Rightarrow> exn + json" where
  "try_block eng r =
     (case r of
        NoResponse e \<Rightarrow> Inl e
      | Response ok b \<Rightarrow>
          (case b of
             Inl e \<Rightarrow> Inl e
           | Inr data \<Rightarrow>
               if \<not> ok then
                 (let m = opt_chain (opt_chain (Some data) (ascii ''detail'')) (ascii ''message'')
                  in Inl (new_Error eng (if truthy m then m else Some (JStr (JSON_stringify data)))))
               else Inr data))"

definition call_finish :: "engine \<Rightarrow> json fetched \<Rightarrow> setter list \<times> (exn + json)" where
  "call_finish eng r =
     (case try_block eng r of
        Inl e \<Rightarrow>
          ([setError (Some (if message e \<noteq> [] then message e else ascii ''Request failed'')),
            setLoading False], Inl e)
      | Inr data \<Rightarrow> ([setLoading False], Inr data))"

definition get_request :: "jsstring \<Rightarrow> jsstring \<Rightarrow> request" where
  "get_request API_BASE path =
     \<lparr>http_method = ascii ''GET'', url = base API_BASE @ path, query = [], body = None\<rparr>"

definition post_request :: "jsstring \<Rightarrow> jsstring \<Rightarrow> jsval \<Rightarrow> request" where
  "post_request API_BASE path b =
     \<lparr>http_method = ascii ''POST'', url = base API_BASE @ path, query = [],
      body = (case b of None \<Rightarrow> None
              | Some v \<Rightarrow> if truthy (Some v) then Some (JSON_stringify v) else None)\<rparr>"

text \<open>
  A whole call, given the outcome of its request: the request issued, the setter calls
  in the order they run, and what the returned promise settles to.
\<close>

definition get :: "engine \<Rightarrow> jsstring \<Rightarrow> jsstring \<Rightarrow> json fetched \<Rightarrow> request \<times> setter list \<times> (exn + json)" where
  "get eng API_BASE path r =
     (get_request API_BASE path, call_start @ fst (call_finish eng r), snd (call_finish eng r))"

definition post :: "engine \<Rightarrow> jsstring \<Rightarrow> jsstring \<Rightarrow> jsval \<Rightarrow> json fetched \<Rightarrow> request \<times> setter list \<times> (exn + json)" where
  "post eng API_BASE path b r =
     (post_request API_BASE path b, call_start @ fst (call_finish eng r), snd (call_finish eng r))"

section \<open>Report retrieval (app/src/screens/ReportsScreen.tsx)\<close>

record reports_state =
  cid :: jsstring
  report :: json
  api :: api_state

definition reports_init :: reports_state where
  "reports_init = \<lparr>cid = ascii ''1001'', report = JNull, api = \<lparr>loading = False, error = None\<rparr>\<rparr>"

text \<open>
  \<open>load\<close> up to its \<open>await\<close>, and from the outcome on. \<open>setReport\<close> runs only when
  \<open>get\<close> returns; the empty \<open>catch\<close> swallows what it throws.
\<close>

definition load_start :: "jsstring \<Rightarrow> reports_state \<Rightarrow> reports_state \<times> request" where
  "load_start API_BASE s =
     (s\<lparr>api := run_setters (api s) call_start\<rparr>,
      get_request API_BASE (ascii ''/report/customer/'' @ cid s))"

definition load_finish :: "engine \<Rightarrow> json fetched \<Rightarrow> reports_state \<Rightarrow> reports_state" where
  "load_finish eng r s =
     (case call_finish eng r of
        (xs, Inl e) \<Rightarrow> s\<lparr>api := run_setters (api s) xs\<rparr>
      | (xs, Inr data) \<Rightarrow> s\<lparr>api := run_setters (api s) xs, report := data\<rparr>)"


section \<open>Conversational session (ChatScreen)\<close>

text \<open>
  The fields \<open>id\<close> and \<open>text\<close> of a message are \<open>msg_id\<close> and \<open>msg_text\<close> here.
\<close>

datatype role = user | assistant

record Msg =
  msg_id :: jsstring
  role :: role
  msg_text :: jsstring

record chat_state =
  messages :: "Msg list"
  input :: jsstring
  busy :: bool

definition chat_init :: chat_state where
  "chat_init =
     \<lparr>messages =
        [\<lparr>msg_id = ascii ''hello'', role = assistant,
          msg_text = ascii ''Hi! Type a query below (e.g., `top customers by revenue`).''\<rparr>],
      input = [], busy = False\<rparr>"

definition warning_marker :: jsstring where
  "warning_marker = [0x26A0, 0xFE0F]"

definition success_marker :: jsstring where
  "success_marker = [0x2705]"

definition info_marker :: jsstring where
  "info_marker = [0x2139, 0xFE0F]"

definition chat_request :: "jsstring \<Rightarrow> jsstring \<Rightarrow> request" where
  "chat_request API_BASE trimmed =
     \<lparr>http_method = ascii ''POST'', url = API_BASE @ ascii ''/chat'', query = [],
      body = Some (JSON_stringify (JObj [(ascii ''message'', JStr trimmed), (ascii ''limit'', JNum 50)]))\<rparr>"

text \<open>
  \<open>send\<close> up to its \<open>await\<close>. \<open>now\<close> is the reading of \<open>Date.now()\<close>, and
  \<open>busy\<close> is read from the state of the render the handler belongs to. The result
  carries the request issued, if any.
\<close>

definition send_start :: "jsstring \<Rightarrow> int \<Rightarrow> jsstring \<Rightarrow> chat_state \<Rightarrow> chat_state \<times> request option" where
  "send_start API_BASE now txt s =
     (let trimmed = trim txt
      in if trimmed = [] \<or> busy s then (s, None)
         else (s\<lparr>messages := messages s @ [\<lparr>msg_id = String_int now, role = user, msg_text = trimmed\<rparr>],
                 input := [], busy := True\<rparr>,
               Some (chat_request API_BASE trimmed)))"

text \<open>Sequencing of steps that may throw.\<close>

definition and_then :: "exn + 'a \<Rightarrow> ('a \<Rightarrow> exn + 'b) \<Rightarrow> exn + 'b" where
  "and_then m f = (case m of Inl e \<Rightarrow> Inl e | Inr x \<Rightarrow> f x)"

definition join_with :: "engine \<Rightarrow> jsstring \<Rightarrow> json list \<Rightarrow> exn + jsstring" where
  "join_with eng sep xs = (case join sep xs of Inl te \<Rightarrow> Inl (TypeError eng te) | Inr t \<Rightarrow> Inr t)"

text \<open>
  The branch of a response that is not \<open>ok\<close>. Lines 68 and 69 compute \<open>issues\<close>
  and \<open>errMsg\<close> inside the \<open>try\<close> of \<open>send\<close>. The text of the message is the
  template literal of line 75, which stands inside the function handed to
  \<open>setMessages\<close>: React evaluates it when it applies the update, during the next
  render and outside the \<open>try\<close>.
\<close>

definition error_message :: "engine \<Rightarrow> json \<Rightarrow> exn + jsstring" where
  "error_message eng json =
     (let detail = opt_chain (Some json) (ascii ''detail'')
      in and_then
           (case opt_chain detail (ascii ''issues'') of
              Some (JArr xs) \<Rightarrow> join_with eng [0x000A] xs
            | _ \<Rightarrow> Inr [])
           (\<lambda>issues.
              let m = opt_chain detail (ascii ''message'')
              in and_then (ToString eng (if truthy m then m else Some (JStr (ascii ''Failed to query''))))
                   (\<lambda>shown. Inr (shown @ (if issues \<noteq> [] then [0x000A] @ issues else [])))))"

definition error_text :: "engine \<Rightarrow> json \<Rightarrow> jsstring \<Rightarrow> exn + jsstring" where
  "error_text eng json errMsg =
     (let sql = opt_chain (opt_chain (Some json) (ascii ''detail'')) (ascii ''sql'')
      in and_then (ToString eng (if sql = None \<or> sql = Some JNull then Some (JStr []) else sql))
           (\<lambda>attempted.
              Inr (warning_marker @ ascii '' '' @ errMsg @ [0x000A, 0x000A]
                   @ ascii ''SQL:'' @ [0x000A] @ attempted)))"

text \<open>The text built when the response is \<open>ok\<close> (lines 79 to 82).\<close>

definition answer_and_sql :: "engine \<Rightarrow> json \<Rightarrow> exn + jsstring" where
  "answer_and_sql eng json =
     and_then (member eng json (ascii ''answer''))
       (\<lambda>a. and_then (ToString eng a)
          (\<lambda>answer. and_then (member eng json (ascii ''sql''))
             (\<lambda>q. and_then (ToString eng q)
                (\<lambda>sql. Inr (answer @ [0x000A, 0x000A] @ ascii ''SQL:'' @ [0x000A] @ sql)))))"

definition success_text :: "engine \<Rightarrow> json \<Rightarrow> exn + jsstring" where
  "success_text eng json =
     (case opt_chain (Some json) (ascii ''rows'') of
        Some (JArr (row # rest)) \<Rightarrow>
          and_then (answer_and_sql eng json)
            (\<lambda>t. Inr (success_marker @ ascii '' '' @ t @ [0x000A, 0x000A] @ ascii ''First row:''
                        @ [0x000A] @ JSON_stringify_2 row))
      | _ \<Rightarrow> and_then (answer_and_sql eng json) (\<lambda>t. Inr (info_marker @ ascii '' '' @ t)))"

text \<open>
  What the \<open>try\<close> block hands to \<open>setMessages\<close> when it does not throw: a text
  that is already built (line 83), or the template of line 75 with the \<open>errMsg\<close> and
  the body it will be evaluated on.
\<close>

datatype message_update = Built jsstring | Template jsstring json

definition try_send :: "engine \<Rightarrow> json fetched \<Rightarrow> exn + message_update" where
  "try_send eng r =
     (case r of
        NoResponse e \<Rightarrow> Inl e
      | Response ok b \<Rightarrow>
          (case b of
             Inl e \<Rightarrow> Inl e
           | Inr json \<Rightarrow>
               if \<not> ok then and_then (error_message eng json) (\<lambda>errMsg. Inr (Template errMsg json))
               else and_then (success_text eng json) (\<lambda>t. Inr (Built t))))"

definition update_text :: "engine \<Rightarrow> message_update \<Rightarrow> exn + jsstring" where
  "update_text eng u =
     (case u of Built t \<Rightarrow> Inr t | Template errMsg json \<Rightarrow> error_text eng json errMsg)"

definition network_text :: "exn \<Rightarrow> jsstring" where
  "network_text e =
     warning_marker @ ascii '' '' @ (if message e \<noteq> [] then message e else ascii ''Network error'')"

text \<open>
  \<open>send\<close> from the outcome of its request on, up to the render that applies its state
  updates; \<open>now\<close> is the clock read when the update runs. The result is \<open>Inr\<close> of
  the state that render shows, or \<open>Inl\<close> of the exception the render throws when the
  update itself throws: then no message is appended and the screen is gone.
\<close>

definition send_finish :: "engine \<Rightarrow> int \<Rightarrow> json fetched \<Rightarrow> chat_state \<Rightarrow> exn + chat_state" where
  "send_finish eng now r s =
     (case try_send eng r of
        Inr u \<Rightarrow>
          (case update_text eng u of
             Inr t \<Rightarrow>
               Inr (s\<lparr>messages := messages s
                          @ [\<lparr>msg_id = String_int (now + 1), role = assistant, msg_text = t\<rparr>],
                       busy := False\<rparr>)
           | Inl e \<Rightarrow> Inl e)
      | Inl e \<Rightarrow>
          Inr (s\<lparr>messages := messages s
                     @ [\<lparr>msg_id = String_int (now + 2), role = assistant, msg_text = network_text e\<rparr>],
                  busy := False\<rparr>))"

text \<open>
  The error envelope \<open>{detail: {message, issues?, sql?}}\<close> of the remote service, as
  a JSON value.
\<close>

definition envelope :: "jsstring \<Rightarrow> jsstring list option \<Rightarrow> jsstring option \<Rightarrow> json" where
  "envelope m issues sql =
     JObj [(ascii ''detail'',
            JObj ([(ascii ''message'', JStr m)]
                  @ (case issues of None \<Rightarrow> [] | Some xs \<Rightarrow> [(ascii ''issues'', JArr (map JStr xs))])
                  @ (case sql of None \<Rightarrow> [] | Some t \<Rightarrow> [(ascii ''sql'', JStr t)])))]"


text \<open>
  The text a structured failure is reported with, part by part: the warning marker, the
  backend's message (a fixed note in place of an empty one), the issues joined by line
  feeds on a line of their own when there are any, and the \<open>SQL:\<close> label followed by
  the attempted query when one was supplied.
\<close>

definition issue_lines :: "jsstring list option \<Rightarrow> jsstring" where
  "issue_lines issues = (case issues of None \<Rightarrow> [] | Some xs \<Rightarrow> separated [0x000A] xs)"

definition error_report :: "jsstring \<Rightarrow> jsstring list option \<Rightarrow> jsstring option \<Rightarrow> jsstring" where
  "error_report m issues sql =
     warning_marker @ ascii '' '' @ (if m \<noteq> [] then m else ascii ''Failed to query'')
     @ (if issue_lines issues \<noteq> [] then [0x000A] @ issue_lines issues else [])
     @ [0x000A, 0x000A] @ ascii ''SQL:'' @ [0x000A] @ (case sql of None \<Rightarrow> [] | Some t \<Rightarrow> t)"




definition loaded_report :: reports_state where
  "loaded_report =
     reports_init\<lparr>report := JObj [(ascii ''summary'', JObj [(ascii ''orders'', JNum 3)])]\<rparr>"

section \<open>Paginated search (PricesScreen)\<close>

text \<open>
  The screen's state is typed by its declarations: \<open>data\<close> is a list of rows and
  \<open>total\<close> a number. The decoded body of an \<open>ok\<close> response is taken to have the
  shape the endpoint documents, each field possibly missing, or to be \<open>null\<close>; the body
  of any other response is never looked at by what follows the \<open>throw\<close>. The flag
  \<open>loading\<close> of this screen is \<open>listLoading\<close> here, apart from the one of the
  transport client.
\<close>

record PriceRow =
  item_id :: int
  name :: jsstring
  baseprice :: int

datatype pricelist =
    NullBody
  | Pricelist (rows: "PriceRow list option") (row_count: "int option")

record prices_state =
  data :: "PriceRow list"
  total :: int
  q :: jsstring
  listLoading :: bool
  page :: int

definition limit :: int where
  "limit = 25"

definition offset :: "prices_state \<Rightarrow> int" where
  "offset s = page s * limit"

text \<open>
  \<open>total / limit\<close> is a division of doubles: its result is the double nearest to the
  exact quotient, ties going to the even significand. \<open>double\<close> is that rounding to 53
  significant bits; the exponent range is left unbounded, since the quotient of an
  integer that is a double by 25 neither overflows nor is subnormal. \<open>total\<close> itself is
  an integer that is a double.
\<close>

definition round_half_even :: "real \<Rightarrow> int" where
  "round_half_even y =
     (let n = \<lfloor>y\<rfloor>
      in if y - of_int n < 1 / 2 then n
         else if 1 / 2 < y - of_int n then n + 1
         else if even n then n else n + 1)"

definition double :: "real \<Rightarrow> real" where
  "double x =
     (if x = 0 then 0
      else (let ulp = 2 powr of_int (\<lfloor>log 2 \<bar>x\<bar>\<rfloor> - 52)
            in of_int (round_half_even (x / ulp)) * ulp))"

definition pages :: "int \<Rightarrow> int" where
  "pages t = max 1 \<lceil>double (real_of_int t / real_of_int limit)\<rceil>"

text \<open>\<open>URLSearchParams.set\<close>: replaces the value of a name already there, else appends.\<close>

definition params_set :: "jsstring \<Rightarrow> jsstring \<Rightarrow> (jsstring \<times> jsstring) list \<Rightarrow> (jsstring \<times> jsstring) list" where
  "params_set k v ps =
     (if k \<in> fst ` set ps
      then takeWhile (\<lambda>p. fst p \<noteq> k) ps @ [(k, v)]
           @ filter (\<lambda>p. fst p \<noteq> k) (tl (dropWhile (\<lambda>p. fst p \<noteq> k) ps))
      else ps @ [(k, v)])"

text \<open>
  The request \<open>load\<close> builds. \<open>load\<close> is a closure of one render: \<open>offset\<close> and
  \<open>q\<close> are the values that render saw, which is why the state of the render is an
  argument of its own.
\<close>

definition load_request :: "jsstring \<Rightarrow> prices_state \<Rightarrow> request" where
  "load_request API_BASE render =
     (let params = params_set (ascii ''offset'') (String_int (offset render))
                     (params_set (ascii ''limit'') (String_int limit) []);
          params = (if trim (q render) \<noteq> [] then params_set (ascii ''q'') (trim (q render)) params
                    else params)
      in \<lparr>http_method = ascii ''GET'', url = API_BASE @ ascii ''/pricelist'', query = params, body = None\<rparr>)"

text \<open>
  What the \<open>try\<close> block of \<open>load\<close> stores, or \<open>None\<close> when it throws: no response, an
  undecodable body, a status that is not \<open>ok\<close>, or a \<open>null\<close> body, whose \<open>rows\<close>
  cannot be read.
\<close>

definition load_try :: "pricelist fetched \<Rightarrow> (PriceRow list \<times> int) option" where
  "load_try r =
     (case r of
        NoResponse e \<Rightarrow> None
      | Response ok b \<Rightarrow>
          (case b of
             Inl e \<Rightarrow> None
           | Inr json \<Rightarrow>
               if \<not> ok then None
               else (case json of
                       NullBody \<Rightarrow> None
                     | Pricelist rs n \<Rightarrow>
                         Some (case rs of None \<Rightarrow> [] | Some xs \<Rightarrow> xs,
                               case n of None \<Rightarrow> 0 | Some c \<Rightarrow> if c \<noteq> 0 then c else 0))))"

definition load_finish_prices :: "pricelist fetched \<Rightarrow> prices_state \<Rightarrow> prices_state" where
  "load_finish_prices r s =
     (case load_try r of
        Some (xs, n) \<Rightarrow> s\<lparr>data := xs, total := n, listLoading := False\<rparr>
      | None \<Rightarrow> s\<lparr>data := [], total := 0, listLoading := False\<rparr>)"

text \<open>
  The screen together with the requests it has issued that have not settled yet, oldest
  first.
\<close>

record prices_config =
  ui :: prices_state
  pending :: "request list"

text \<open>
  A call of \<open>load\<close> by the closure of the render \<open>render\<close>: it sets the loading
  flag and issues its request at once.
\<close>

definition load_prices :: "jsstring \<Rightarrow> prices_state \<Rightarrow> prices_config \<Rightarrow> prices_config" where
  "load_prices API_BASE render c =
     c\<lparr>ui := (ui c)\<lparr>listLoading := True\<rparr>, pending := pending c @ [load_request API_BASE render]\<rparr>"

text \<open>
  \<open>useEffect(() => { load(); }, [page])\<close>: after a render whose \<open>page\<close> differs from
  the one of the render before, \<open>load\<close> of the new render runs.
\<close>

definition page_effect :: "jsstring \<Rightarrow> int \<Rightarrow> prices_config \<Rightarrow> prices_config" where
  "page_effect API_BASE previous c =
     (if page (ui c) \<noteq> previous then load_prices API_BASE (ui c) c else c)"

definition setPage :: "(int \<Rightarrow> int) \<Rightarrow> prices_config \<Rightarrow> prices_config" where
  "setPage f c = c\<lparr>ui := (ui c)\<lparr>page := f (page (ui c))\<rparr>\<rparr>"

text \<open>On mount the effect runs once, from the first render.\<close>

definition prices_first_render :: prices_state where
  "prices_first_render = \<lparr>data = [], total = 0, q = [], listLoading = False, page = 0\<rparr>"

definition prices_mount :: "jsstring \<Rightarrow> prices_config" where
  "prices_mount API_BASE =
     load_prices API_BASE prices_first_render \<lparr>ui = prices_first_render, pending = []\<rparr>"

text \<open>
  The handler of the search button and of the search field: \<open>setPage(0); load();\<close>.
  The \<open>load\<close> it calls is the closure of the render the handler belongs to; the state
  update is seen by the next render, after which the effect on \<open>page\<close> may run.
\<close>

definition runSearch :: "jsstring \<Rightarrow> prices_config \<Rightarrow> prices_config" where
  "runSearch API_BASE c =
     page_effect API_BASE (page (ui c)) (load_prices API_BASE (ui c) (setPage (\<lambda>p. 0) c))"

definition prev_disabled :: "prices_state \<Rightarrow> bool" where
  "prev_disabled s \<longleftrightarrow> page s \<le> 0"

definition next_disabled :: "prices_state \<Rightarrow> bool" where
  "next_disabled s \<longleftrightarrow> page s + 1 \<ge> pages (total s)"

definition press_prev :: "jsstring \<Rightarrow> prices_config \<Rightarrow> prices_config" where
  "press_prev API_BASE c = page_effect API_BASE (page (ui c)) (setPage (\<lambda>p. max 0 (p - 1)) c)"

definition press_next :: "jsstring \<Rightarrow> prices_config \<Rightarrow> prices_config" where
  "press_next API_BASE c = page_effect API_BASE (page (ui c)) (setPage (\<lambda>p. p + 1) c)"

text \<open>
  What can happen to the screen: the user edits the search text, runs a search, presses
  a pager control that is not disabled, or one of the pending requests settles.
\<close>

datatype prices_event =
    ChangeText jsstring
  | Search
  | Prev
  | Next
  | Settle nat "pricelist fetched"

definition fire :: "jsstring \<Rightarrow> prices_event \<Rightarrow> prices_config \<Rightarrow> prices_config option" where
  "fire API_BASE ev c =
     (case ev of
        ChangeText t \<Rightarrow> Some (c\<lparr>ui := (ui c)\<lparr>q := t\<rparr>\<rparr>)
      | Search \<Rightarrow> Some (runSearch API_BASE c)
      | Prev \<Rightarrow> if prev_disabled (ui c) then None else Some (press_prev API_BASE c)
      | Next \<Rightarrow> if next_disabled (ui c) then None else Some (press_next API_BASE c)
      | Settle i r \<Rightarrow>
          if i < length (pending c)
          then Some (c\<lparr>ui := load_finish_prices r (ui c),
                       pending := take i (pending c) @ drop (Suc i) (pending c)\<rparr>)
          else None)"

fun run :: "jsstring \<Rightarrow> prices_event list \<Rightarrow> prices_config \<Rightarrow> prices_config option" where
  "run API_BASE [] c = Some c"
| "run API_BASE (ev # evs) c =
     (case fire API_BASE ev c of None \<Rightarrow> None | Some c' \<Rightarrow> run API_BASE evs c')"

definition reachable :: "jsstring \<Rightarrow> prices_config \<Rightarrow> bool" where
  "reachable API_BASE c \<longleftrightarrow> (\<exists>evs. run API_BASE evs (prices_mount API_BASE) = Some c)"

section \<open>Formatters (app/src/utils/formatters.ts)\<close>

text \<open>
  The argument of \<open>fmtCurrency\<close> is \<open>number | string | null | undefined\<close>. Numbers are
  IEEE doubles and their parsing and printing belong to the platform, so the number type
  and the four platform functions the formatter calls are parameters: \<open>Number(s)\<close>,
  \<open>Number.isNaN\<close>, \<open>String(x)\<close>, and
  \<open>new Intl.NumberFormat(undefined, {style: "currency", currency}).format(x)\<close>, which
  may throw (a \<open>RangeError\<close> on a malformed currency code).
\<close>

datatype 'n amount = Null | Undefined | Str jsstring | Num 'n

record 'n numbers =
  Number :: "jsstring \<Rightarrow> 'n"
  isNaN :: "'n \<Rightarrow> bool"
  String_number :: "'n \<Rightarrow> jsstring"
  format_currency :: "jsstring \<Rightarrow> 'n \<Rightarrow> exn + jsstring"

definition placeholder :: jsstring where
  "placeholder = [0x2014]"

definition String_amount :: "'n numbers \<Rightarrow> 'n amount \<Rightarrow> jsstring" where
  "String_amount P n =
     (case n of
        Null \<Rightarrow> ascii ''null''
      | Undefined \<Rightarrow> ascii ''undefined''
      | Str t \<Rightarrow> t
      | Num x \<Rightarrow> String_number P x)"

text \<open>
  Lines 4 to 9, once \<open>val\<close> is known. The result is \<open>Inr\<close> of the string returned, or
  \<open>Inl\<close> of an exception that escapes the function.
\<close>

definition format_val :: "'n numbers \<Rightarrow> 'n amount \<Rightarrow> 'n \<Rightarrow> jsstring \<Rightarrow> exn + jsstring" where
  "format_val P n val currency =
     (if isNaN P val then Inr (String_amount P n)
      else (case format_currency P currency val of
              Inr t \<Rightarrow> Inr t
            | Inl e \<Rightarrow> Inr (String_number P val)))"

definition fmtCurrency :: "'n numbers \<Rightarrow> 'n amount \<Rightarrow> jsstring \<Rightarrow> exn + jsstring" where
  "fmtCurrency P n currency =
     (case n of
        Null \<Rightarrow> Inr placeholder
      | Undefined \<Rightarrow> Inr placeholder
      | Str t \<Rightarrow> if t = [] then Inr placeholder else format_val P n (Number P t) currency
      | Num x \<Rightarrow> format_val P n x currency)"

definition fmtCurrency_default :: "'n numbers \<Rightarrow> 'n amount \<Rightarrow> exn + jsstring" where
  "fmtCurrency_default P n = fmtCurrency P n (ascii ''USD'')"

section \<open>A platform to run the model on\<close>

text \<open>
  Concrete values for the parameters, so that the functions above can be evaluated. The
  engine words its \<open>TypeError\<close>s as V8 does. The numbers are the integers with a
  not-a-number value; \<open>Number\<close> reads a string of decimal digits, and the formatter
  prints US dollars the way the \<open>en-US\<close> locale prints an amount below one thousand.
  Outside those inputs this stand-in is not the platform's function.
\<close>

definition v8 :: engine where
  "v8 =
     \<lparr>typeErrorMessage =
        (\<lambda>te. case te of
                 ReadNull k \<Rightarrow> ascii ''Cannot read properties of null (reading '' @ [0x0027] @ k
                               @ [0x0027] @ ascii '')''
               | NotPrimitive \<Rightarrow> ascii ''Cannot convert object to primitive value'')\<rparr>"

definition isDigit :: "jschar \<Rightarrow> bool" where
  "isDigit c \<longleftrightarrow> 0x0030 \<le> c \<and> c \<le> 0x0039"

definition decimal :: "jsstring \<Rightarrow> int option" where
  "decimal t =
     (if t \<noteq> [] \<and> list_all isDigit t then Some (foldl (\<lambda>acc c. 10 * acc + (uint c - 48)) 0 t)
      else None)"

definition sample_numbers :: "int option numbers" where
  "sample_numbers =
     \<lparr>Number = decimal,
      isNaN = (\<lambda>x. x = None),
      String_number = (\<lambda>x. case x of None \<Rightarrow> ascii ''NaN'' | Some i \<Rightarrow> String_int i),
      format_currency =
        (\<lambda>currency x.
           if currency = ascii ''USD''
           then Inr (case x of None \<Rightarrow> ascii ''NaN'' | Some i \<Rightarrow> ascii ''$'' @ String_int i @ ascii ''.00'')
           else Inl (Error (ascii ''Invalid currency code : '' @ currency)))\<rparr>"

text \<open>A base address, and outcomes of a search request, to run the screens on.\<close>

definition localhost :: jsstring where
  "localhost = ascii ''http://localhost:8000''"

definition hundred_items :: "pricelist fetched" where
  "hundred_items = Response True (Inr (Pricelist (Some []) (Some 100)))"

definition no_network :: "pricelist fetched" where
  "no_network = NoResponse (Error (ascii ''Network request failed''))"
section \<open>Properties of the transport client and of the report screen\<close>

lemma failed_try_block: "failed r \<Longrightarrow> \<exists>e. try_block eng r = Inl e"
  by (auto simp: failed_def try_block_def Let_def split: fetched.splits sum.splits)

text \<open>
  C9: every call of \<open>get\<close> and of \<open>post\<close>, whatever the outcome of its request, opens
  by setting \<open>loading\<close> and clearing \<open>error\<close>; over the whole call \<open>loading\<close> goes
  from true to false exactly once, and it is false when the call has ended.
\<close>

theorem transport_call_loading:
  "(case get eng B path r of (req, xs, res) \<Rightarrow>
      take 2 xs = [setLoading True, setError None]
      \<and> loading (run_setters s (take 2 xs)) \<and> error (run_setters s (take 2 xs)) = None
      \<and> falls (map loading (states s xs)) = 1
      \<and> \<not> loading (run_setters s xs))
   \<and> (case post eng B path b r of (req, xs, res) \<Rightarrow>
      take 2 xs = [setLoading True, setError None]
      \<and> loading (run_setters s (take 2 xs)) \<and> error (run_setters s (take 2 xs)) = None
      \<and> falls (map loading (states s xs)) = 1
      \<and> \<not> loading (run_setters s xs))"
  by (cases "try_block eng r")
    (simp_all add: get_def post_def call_start_def call_finish_def run_setters_def)

text \<open>
  C3: a report load that fails (no response, an undecodable body, or a status that is not
  \<open>ok\<close>) leaves the report and the customer id as they were, stores an error message and
  ends with \<open>loading\<close> false; so a failed reload after a load still shows the report
  that was there.
\<close>

theorem failed_load_keeps_report:
  assumes "failed r"
  shows "report (load_finish eng r s) = report s \<and> cid (load_finish eng r s) = cid s
     \<and> error (api (load_finish eng r s)) \<noteq> None \<and> \<not> loading (api (load_finish eng r s))
     \<and> report (load_finish eng r (fst (load_start B s))) = report s"
proof -
  from assms obtain e where "try_block eng r = Inl e"
    using failed_try_block by blast
  then show ?thesis
    by (simp add: load_finish_def call_finish_def run_setters_def load_start_def)
qed

theorem failed_load_keeps_report_witness:
  "failed (NoResponse (Error (ascii ''Network request failed'')) :: json fetched)
   \<and> report (load_finish v8 (NoResponse (Error (ascii ''Network request failed''))) loaded_report)
       = JObj [(ascii ''summary'', JObj [(ascii ''orders'', JNum 3)])]
   \<and> error (api (load_finish v8 (NoResponse (Error (ascii ''Network request failed''))) loaded_report))
       = Some (ascii ''Network request failed'')"
proof -
  have f: "failed (NoResponse (Error (ascii ''Network request failed'')) :: json fetched)"
    by (simp add: failed_def)
  have e: "error (api (load_finish v8 (NoResponse (Error (ascii ''Network request failed''))) loaded_report))
       = Some (ascii ''Network request failed'')"
    by (simp add: load_finish_def call_finish_def try_block_def run_setters_def ascii_def)
  from failed_load_keeps_report [OF f, of v8 loaded_report] f e show ?thesis
    by (simp add: loaded_report_def)
qed

section \<open>Properties of the conversational session\<close>

text \<open>
  C8: \<open>send\<close> of a text that trims to the empty string, and \<open>send\<close> while busy, change
  nothing in the state (the message log included) and issue no request.
\<close>

theorem send_noop: "trim txt = [] \<or> busy s \<Longrightarrow> send_start B now txt s = (s, None)"
  by (auto simp: send_start_def Let_def)

theorem send_noop_witness:
  "send_start (ascii ''http://localhost:8000'') 5 (ascii ''   '') chat_init = (chat_init, None)"
  using send_noop [of "ascii ''   ''" chat_init "ascii ''http://localhost:8000''" 5]
  by (simp add: trim_def isWhiteSpace_def ascii_def)





lemma join_strings: "join sep (map JStr xs) = Inr (separated sep xs)"
  by (induction sep xs rule: separated.induct) auto

lemma detail_envelope:
  "opt_chain (Some (envelope m issues sql)) (ascii ''detail'')
   = Some (JObj ([(ascii ''message'', JStr m)]
                  @ (case issues of None \<Rightarrow> [] | Some xs \<Rightarrow> [(ascii ''issues'', JArr (map JStr xs))])
                  @ (case sql of None \<Rightarrow> [] | Some t \<Rightarrow> [(ascii ''sql'', JStr t)])))"
  by (simp add: envelope_def opt_chain_def own_property_def)

lemma sql_envelope:
  "opt_chain (opt_chain (Some (envelope m issues sql)) (ascii ''detail'')) (ascii ''sql'')
   = map_option JStr sql"
  unfolding detail_envelope
  by (cases issues; cases sql) (simp_all add: opt_chain_def own_property_def ascii_def)

lemma error_message_envelope:
  "error_message eng (envelope m issues sql)
   = Inr ((if m \<noteq> [] then m else ascii ''Failed to query'')
          @ (if issue_lines issues \<noteq> [] then [0x000A] @ issue_lines issues else []))"
  unfolding error_message_def detail_envelope
  by (cases issues; cases sql)
     (simp_all add: opt_chain_def own_property_def ascii_def and_then_def join_with_def
        join_strings truthy_def ToString_def issue_lines_def Let_def)

lemma error_text_envelope:
  "error_text eng (envelope m issues sql) errMsg
   = Inr (warning_marker @ ascii '' '' @ errMsg @ [0x000A, 0x000A] @ ascii ''SQL:'' @ [0x000A]
          @ (case sql of None \<Rightarrow> [] | Some t \<Rightarrow> t))"
  unfolding error_text_def sql_envelope
  by (cases sql) (simp_all add: and_then_def ToString_def Let_def)





text \<open>
  C5: when the request settles with a status that is not \<open>ok\<close> and the error envelope
  \<open>{detail: {message, issues?, sql?}}\<close>, the one assistant message appended is exactly
  the structured report: the warning marker first, then the backend's message, the
  issues joined by line feeds when there are any, and at the end the \<open>SQL:\<close> label
  followed by the attempted query when one was supplied and by nothing otherwise; no row
  excerpt is part of it.
\<close>

theorem structured_failure_message:
  "send_finish eng now (Response False (Inr (envelope m issues sql))) s
     = Inr (s\<lparr>messages := messages s
            @ [\<lparr>msg_id = String_int (now + 1), role = assistant, msg_text = error_report m issues sql\<rparr>],
         busy := False\<rparr>)
   \<and> prefix warning_marker (error_report m issues sql)
   \<and> sublist m (error_report m issues sql)
   \<and> sublist (issue_lines issues) (error_report m issues sql)
   \<and> suffix (ascii ''SQL:'' @ [0x000A] @ (case sql of None \<Rightarrow> [] | Some t \<Rightarrow> t))
        (error_report m issues sql)"
proof (intro conjI)
  show "send_finish eng now (Response False (Inr (envelope m issues sql))) s
     = Inr (s\<lparr>messages := messages s
            @ [\<lparr>msg_id = String_int (now + 1), role = assistant, msg_text = error_report m issues sql\<rparr>],
         busy := False\<rparr>)"
    by (simp add: send_finish_def try_send_def update_text_def and_then_def error_message_envelope
        error_text_envelope error_report_def)
  show "prefix warning_marker (error_report m issues sql)"
    by (simp add: error_report_def)
  show "sublist m (error_report m issues sql)"
  proof (cases "m = []")
    case True
    then show ?thesis by simp
  next
    case False
    then have "error_report m issues sql = (warning_marker @ ascii '' '') @ m
        @ ((if issue_lines issues \<noteq> [] then [0x000A] @ issue_lines issues else [])
           @ [0x000A, 0x000A] @ ascii ''SQL:'' @ [0x000A] @ (case sql of None \<Rightarrow> [] | Some t \<Rightarrow> t))"
      by (simp add: error_report_def)
    then show ?thesis
      by (metis sublist_appendI)
  qed
  show "sublist (issue_lines issues) (error_report m issues sql)"
  proof (cases "issue_lines issues = []")
    case True
    then show ?thesis by simp
  next
    case False
    then have "error_report m issues sql
        = (warning_marker @ ascii '' '' @ (if m \<noteq> [] then m else ascii ''Failed to query'') @ [0x000A])
          @ issue_lines issues
          @ ([0x000A, 0x000A] @ ascii ''SQL:'' @ [0x000A] @ (case sql of None \<Rightarrow> [] | Some t \<Rightarrow> t))"
      by (simp add: error_report_def)
    then show ?thesis
      by (metis sublist_appendI)
  qed
  have "error_report m issues sql
      = (warning_marker @ ascii '' '' @ (if m \<noteq> [] then m else ascii ''Failed to query'')
          @ (if issue_lines issues \<noteq> [] then [0x000A] @ issue_lines issues else []) @ [0x000A, 0x000A])
        @ (ascii ''SQL:'' @ [0x000A] @ (case sql of None \<Rightarrow> [] | Some t \<Rightarrow> t))"
    by (simp add: error_report_def)
  then show "suffix (ascii ''SQL:'' @ [0x000A] @ (case sql of None \<Rightarrow> [] | Some t \<Rightarrow> t))
      (error_report m issues sql)"
    by (metis suffix_appendI suffix_order.refl)
qed

theorem structured_failure_message_witness:
  "send_finish v8 7
     (Response False (Inr (envelope (ascii ''unknown table'') (Some [ascii ''table X not allowed'']) None)))
     (chat_init\<lparr>busy := True\<rparr>)
   = Inr (chat_init\<lparr>messages := messages chat_init
        @ [\<lparr>msg_id = ascii ''8'', role = assistant,
             msg_text = warning_marker @ ascii '' unknown table'' @ [0x000A] @ ascii ''table X not allowed''
                        @ [0x000A, 0x000A] @ ascii ''SQL:'' @ [0x000A]\<rparr>]\<rparr>)"
proof -
  have "error_report (ascii ''unknown table'') (Some [ascii ''table X not allowed'']) None
      = warning_marker @ ascii '' unknown table'' @ [0x000A] @ ascii ''table X not allowed''
                        @ [0x000A, 0x000A] @ ascii ''SQL:'' @ [0x000A]"
    by (simp add: error_report_def issue_lines_def ascii_def)
  moreover have "String_int (7 + 1) = ascii ''8''"
    by code_simp
  ultimately show ?thesis
    using structured_failure_message [of v8 7 "ascii ''unknown table''"
        "Some [ascii ''table X not allowed'']" None "chat_init\<lparr>busy := True\<rparr>"]
    by (simp add: chat_init_def)
qed

text \<open>
  C6, as the code has it: when the request gets no response or its body cannot be
  decoded, the assistant message is the warning marker followed by the message of the
  exception that was thrown, and by the generic \<open>Network error\<close> only when that message
  is empty; the transport client stores the exception's message in the same way, with
  \<open>Request failed\<close> in place of an empty one.
\<close>

theorem transport_failure_message:
  assumes "r = NoResponse e \<or> r = Response ok (Inl e)"
  shows "send_finish eng now r s
     = Inr (s\<lparr>messages := messages s
            @ [\<lparr>msg_id = String_int (now + 2), role = assistant,
                msg_text = warning_marker @ ascii '' ''
                           @ (if message e = [] then ascii ''Network error'' else message e)\<rparr>],
         busy := False\<rparr>)
   \<and> call_finish eng r
     = ([setError (Some (if message e = [] then ascii ''Request failed'' else message e)),
         setLoading False], Inl e)"
  using assms
  by (auto simp: send_finish_def try_send_def network_text_def call_finish_def try_block_def)

theorem transport_failure_message_witness:
  "send_finish v8 0 (NoResponse (Error [])) chat_init
     = Inr (chat_init\<lparr>messages := messages chat_init
              @ [\<lparr>msg_id = ascii ''2'', role = assistant,
                  msg_text = warning_marker @ ascii '' Network error''\<rparr>]\<rparr>)
   \<and> fst (call_finish v8 (NoResponse (Error []))) = [setError (Some (ascii ''Request failed'')), setLoading False]"
proof -
  have i: "String_int 2 = ascii ''2''"
    by code_simp
  from transport_failure_message [of "NoResponse (Error [])" "Error []" True v8 0 chat_init]
  show ?thesis
    by (simp add: i chat_init_def) (simp add: ascii_def)
qed

text \<open>
  C6 as stated fails: a body that cannot be decoded makes the assistant message carry
  the text of the exception, which is not the generic message.
\<close>

theorem transport_failure_exposes_exception:
  "send_finish v8 0
       (Response True (Inl (Error (ascii ''JSON Parse error: Unexpected token: <'')))) chat_init
     = Inr (chat_init\<lparr>messages := messages chat_init
              @ [\<lparr>msg_id = ascii ''2'', role = assistant,
                  msg_text = warning_marker @ ascii '' ''
                             @ ascii ''JSON Parse error: Unexpected token: <''\<rparr>]\<rparr>)
   \<and> sublist (message (Error (ascii ''JSON Parse error: Unexpected token: <'')))
        (warning_marker @ ascii '' '' @ ascii ''JSON Parse error: Unexpected token: <'')
   \<and> warning_marker @ ascii '' '' @ ascii ''JSON Parse error: Unexpected token: <''
     \<noteq> warning_marker @ ascii '' '' @ ascii ''Network error''"
proof (intro conjI)
  have i: "String_int 2 = ascii ''2''"
    by code_simp
  have n: "ascii ''JSON Parse error: Unexpected token: <'' \<noteq> []"
    by (simp add: ascii_def)
  show "send_finish v8 0
       (Response True (Inl (Error (ascii ''JSON Parse error: Unexpected token: <'')))) chat_init
     = Inr (chat_init\<lparr>messages := messages chat_init
              @ [\<lparr>msg_id = ascii ''2'', role = assistant,
                  msg_text = warning_marker @ ascii '' ''
                             @ ascii ''JSON Parse error: Unexpected token: <''\<rparr>]\<rparr>)"
    using n by (simp add: send_finish_def try_send_def network_text_def i chat_init_def)
  have s: "sublist (ascii ''JSON Parse error: Unexpected token: <'')
      (warning_marker @ ascii '' '' @ ascii ''JSON Parse error: Unexpected token: <'')"
    using sublist_append_leftI [of "ascii ''JSON Parse error: Unexpected token: <''"
        "warning_marker @ ascii '' ''"]
    by (simp only: append_assoc)
  then show "sublist (message (Error (ascii ''JSON Parse error: Unexpected token: <'')))
        (warning_marker @ ascii '' '' @ ascii ''JSON Parse error: Unexpected token: <'')"
    by (simp only: exn.sel)
  have "ascii ''JSON Parse error: Unexpected token: <'' \<noteq> ascii ''Network error''"
    by (simp add: ascii_def)
  then show "warning_marker @ ascii '' '' @ ascii ''JSON Parse error: Unexpected token: <''
        \<noteq> warning_marker @ ascii '' '' @ ascii ''Network error''"
    by (simp only: same_append_eq not_False_eq_True)
qed

section \<open>Properties of the paginated search\<close>

text \<open>
  The nearest double is within half a unit in the last place, hence within the fraction
  \<open>2^-53\<close> of a positive value, and an integer below \<open>2^53\<close> is a double. So
  the quotient of a total below \<open>2^53\<close> by 25, which is either an integer or at least
  one 25th away from every integer, keeps its ceiling when it is rounded.
\<close>

lemma round_half_even_close: "\<bar>of_int (round_half_even y) - y\<bar> \<le> 1 / 2"
  unfolding round_half_even_def Let_def by (auto; linarith)

lemma round_half_even_of_int: "round_half_even (of_int k) = k"
  by (simp add: round_half_even_def)

lemma double_close:
  assumes "0 < x"
  shows "\<bar>double x - x\<bar> \<le> x / 2 ^ 53"
proof -
  define e where "e = \<lfloor>log 2 x\<rfloor>"
  define ulp :: real where "ulp = 2 powr of_int (e - 52)"
  have ulp_pos: "0 < ulp"
    by (simp add: ulp_def)
  have "2 powr of_int e \<le> 2 powr log 2 x"
    unfolding e_def by (intro powr_mono) auto
  also have "\<dots> = x"
    using assms by simp
  finally have le: "2 powr of_int e \<le> x" .
  have "ulp = 2 powr of_int e / 2 ^ 52"
    unfolding ulp_def by (simp add: powr_diff flip: powr_realpow)
  with le have ulp_le: "ulp \<le> x / 2 ^ 52"
    by (simp add: divide_right_mono)
  have d: "double x = of_int (round_half_even (x / ulp)) * ulp"
    using assms by (simp add: double_def ulp_def e_def Let_def)
  have "double x - x = (of_int (round_half_even (x / ulp)) - x / ulp) * ulp"
    using ulp_pos unfolding d by (simp add: field_simps)
  then have "\<bar>double x - x\<bar> = \<bar>of_int (round_half_even (x / ulp)) - x / ulp\<bar> * ulp"
    using ulp_pos by (simp add: abs_mult)
  also have "\<dots> \<le> 1 / 2 * ulp"
    using round_half_even_close [of "x / ulp"] ulp_pos by (intro mult_right_mono) auto
  also have "\<dots> \<le> 1 / 2 * (x / 2 ^ 52)"
    using ulp_le by simp
  also have "\<dots> = x / 2 ^ 53"
    by simp
  finally show ?thesis .
qed

lemma double_of_int:
  assumes "0 < k" and "k < 2 ^ 53"
  shows "double (of_int k) = of_int k"
proof -
  define e where "e = \<lfloor>log 2 (of_int k)\<rfloor>"
  define u :: real where "u = 2 powr of_int (e - 52)"
  have "real_of_int k < 2 powr 53"
    using assms(2) by simp
  then have "log 2 (of_int k) < 53"
    using assms(1) by (simp add: log_less_iff)
  then have e_le: "e \<le> 52"
    unfolding e_def by linarith
  define m where "m = nat (52 - e)"
  have "real_of_int (e - 52) = - real m"
    using e_le by (simp add: m_def)
  then have "u = 2 powr (- real m)"
    unfolding u_def by (simp only:)
  also have "\<dots> = 1 / 2 ^ m"
    by (simp add: powr_minus powr_realpow divide_simps)
  finally have u: "u = 1 / 2 ^ m" .
  have "of_int k / u = (of_int (k * 2 ^ m) :: real)"
    unfolding u by simp
  then have r: "round_half_even (of_int k / u) = k * 2 ^ m"
    by (simp only: round_half_even_of_int)
  have "double (of_int k) = of_int (round_half_even (of_int k / u)) * u"
    using assms(1) unfolding double_def Let_def u_def e_def by simp
  also have "\<dots> = of_int (k * 2 ^ m) * u"
    by (simp only: r)
  also have "\<dots> = of_int k"
    unfolding u by simp
  finally show ?thesis .
qed

lemma ceiling_double_quotient:
  assumes "0 \<le> t" and "t < 2 ^ 53"
  shows "\<lceil>double (real_of_int t / 25)\<rceil> = - (- t div 25)"
proof (cases "t mod 25 = 0")
  case True
  then obtain k where k: "t = 25 * k"
    by auto
  with assms have "0 \<le> k" "k < 2 ^ 53"
    by auto
  then have "double (of_int k) = of_int k"
    using double_of_int [of k] by (cases "k = 0") (auto simp: double_def)
  then show ?thesis
    unfolding k by simp
next
  case False
  define k where "k = t div 25"
  define j where "j = t mod 25"
  have t: "t = 25 * k + j" and j: "1 \<le> j" "j \<le> 24"
    using False by (auto simp: k_def j_def)
  have k0: "0 \<le> k"
    using assms by (simp add: k_def)
  define x where "x = real_of_int t / 25"
  have x: "x = of_int k + of_int j / 25"
    unfolding x_def t by simp
  have xpos: "0 < x"
    using k0 j unfolding x by (simp add: add_nonneg_pos)
  have "x < 2 ^ 53 / 25"
    using assms unfolding x_def by simp
  then have "x / 2 ^ 53 < 1 / 25"
    by simp
  with double_close [OF xpos] have close: "\<bar>double x - x\<bar> < 1 / 25"
    by linarith
  have lo: "of_int k < double x"
    using close j unfolding x by (simp add: abs_less_iff field_simps)
  have hi: "double x \<le> of_int (k + 1)"
    using close j unfolding x by (simp add: abs_less_iff field_simps)
  have "\<lceil>double x\<rceil> = k + 1"
    using lo hi by (simp add: ceiling_eq_iff) 
  moreover have "- (- t div 25) = k + 1"
    using j unfolding t by (simp add: div_eq_minus1 zdiv_zminus1_eq_if k_def j_def)
  ultimately show ?thesis
    unfolding x_def by simp
qed

lemma pages_exact: "0 \<le> t \<Longrightarrow> t < 2 ^ 53 \<Longrightarrow> pages t = max 1 (- (- t div 25))"
  unfolding pages_def limit_def using ceiling_double_quotient [of t] by simp

text \<open>
  On the safe integers the page count can be computed with integer division; this is
  the equation evaluation uses.
\<close>

lemma pages_code [code]:
  "pages t =
     (if 0 \<le> t \<and> t < 2 ^ 53 then max 1 (- (- t div 25))
      else Code.abort (STR ''pages: a total outside the safe integers'') (\<lambda>_. pages t))"
  by (simp add: pages_exact)

lemma pages_examples: "pages 0 = 1" "pages 100 = 4" "pages 60 = 3"
  by (simp_all add: pages_exact)

text \<open>
  Far beyond the safe integers the rounding of the division shows: this total is a double,
  its exact quotient by 25 lies just above 720575940379283, and the page count is that
  number, one page short of the exact ceiling.
\<close>

lemma pages_beyond_safe_integers: "pages 18014398509482076 = 720575940379283"
proof -
  define x :: real where "x = 18014398509482076 / 25"
  have "\<lfloor>log 2 \<bar>x\<bar>\<rfloor> = 49"
    by (subst floor_log_eq_powr_iff) (simp_all add: x_def powr_numeral)
  then have u: "(2::real) powr of_int (\<lfloor>log 2 \<bar>x\<bar>\<rfloor> - 52) = 1 / 8"
    by (simp add: powr_minus powr_numeral)
  have "round_half_even (x / (1 / 8)) = 5764607523034264"
    by (simp add: round_half_even_def x_def Let_def)
  then have "double x = 720575940379283"
    unfolding double_def Let_def u by (simp add: x_def)
  then show ?thesis
    by (simp add: pages_def limit_def x_def)
qed

lemma pages_least:
  assumes "0 \<le> t" and "t < 2 ^ 53"
  shows "1 \<le> pages t \<and> t \<le> 25 * pages t \<and> (\<forall>n. 1 \<le> n \<and> t \<le> 25 * n \<longrightarrow> pages t \<le> n)"
  unfolding pages_exact [OF assms] by (auto simp: max_def)

lemma fire_page_nonneg: "fire B ev c = Some c' \<Longrightarrow> 0 \<le> page (ui c) \<Longrightarrow> 0 \<le> page (ui c')"
  by (cases ev)
    (auto simp: fire_def runSearch_def press_prev_def press_next_def page_effect_def load_prices_def
       setPage_def load_finish_prices_def split: if_splits option.splits prod.splits)

lemma run_page_nonneg: "run B evs c = Some c' \<Longrightarrow> 0 \<le> page (ui c) \<Longrightarrow> 0 \<le> page (ui c')"
proof (induction evs arbitrary: c)
  case Nil
  then show ?case by simp
next
  case (Cons ev evs)
  then obtain d where d: "fire B ev c = Some d" and r: "run B evs d = Some c'"
    by (auto split: option.splits)
  from fire_page_nonneg [OF d Cons.prems(2)] have "0 \<le> page (ui d)" .
  with Cons.IH [OF r] show ?case by blast
qed

lemma reachable_page_nonneg: "reachable B c \<Longrightarrow> 0 \<le> page (ui c)"
  unfolding reachable_def
  by (auto dest!: run_page_nonneg simp: prices_mount_def load_prices_def prices_first_render_def)

lemma fire_next:
  "fire B Next c = Some c' \<Longrightarrow>
   page (ui c') = page (ui c) + 1 \<and> total (ui c') = total (ui c) \<and> page (ui c') < pages (total (ui c'))"
  by (auto simp: fire_def next_disabled_def press_next_def page_effect_def load_prices_def setPage_def
      split: if_splits)

lemma fire_prev:
  "fire B Prev c = Some c' \<Longrightarrow>
   page (ui c') = page (ui c) - 1 \<and> total (ui c') = total (ui c) \<and> 0 \<le> page (ui c')"
  by (auto simp: fire_def prev_disabled_def press_prev_def page_effect_def load_prices_def setPage_def
      split: if_splits)

lemmas prices_eval = fire_def prices_mount_def load_prices_def prices_first_render_def
  load_finish_prices_def load_try_def next_disabled_def prev_disabled_def pages_examples press_next_def
  press_prev_def page_effect_def setPage_def runSearch_def

lemma query_load_request:
  "query (load_request B s)
   = [(ascii ''limit'', String_int 25), (ascii ''offset'', String_int (page s * 25))]
     @ (if trim (q s) \<noteq> [] then [(ascii ''q'', trim (q s))] else [])"
  by (simp add: load_request_def params_set_def offset_def limit_def Let_def ascii_def)

lemma String_int_examples:
  "String_int 25 = ascii ''25''" "String_int 0 = ascii ''0''" "String_int 50 = ascii ''50''"
  by code_simp+

lemma trim_shirt: "trim (ascii '' shirt'') = ascii ''shirt''"
  by code_simp

lemma reachable_first_page:
  "reachable localhost
     \<lparr>ui = \<lparr>data = [], total = 100, q = [], listLoading = False, page = 0\<rparr>, pending = []\<rparr>"
  unfolding reachable_def
  by (rule exI [of _ "[Settle 0 hundred_items]"]) (simp add: prices_eval hundred_items_def)

text \<open>
  C4: when a search request fails (no response, an undecodable body, or a status that is
  not \<open>ok\<close>), the screen afterwards has no items and a total of zero, whatever it showed
  before.
\<close>

theorem failed_search_clears:
  "failed r \<Longrightarrow> data (load_finish_prices r s) = [] \<and> total (load_finish_prices r s) = 0"
  by (auto simp: failed_def load_finish_prices_def load_try_def split: fetched.splits sum.splits)

theorem failed_search_clears_witness:
  "failed (Response False (Inr NullBody))
   \<and> data (load_finish_prices (Response False (Inr NullBody))
        \<lparr>data = [\<lparr>item_id = 1, name = ascii ''shirt'', baseprice = 3\<rparr>], total = 1, q = [],
         listLoading = True, page = 0\<rparr>) = []
   \<and> total (load_finish_prices (Response False (Inr NullBody))
        \<lparr>data = [\<lparr>item_id = 1, name = ascii ''shirt'', baseprice = 3\<rparr>], total = 1, q = [],
         listLoading = True, page = 0\<rparr>) = 0"
proof -
  have f: "failed (Response False (Inr NullBody))"
    by (simp add: failed_def)
  from failed_search_clears [OF f] f show ?thesis
    by blast
qed

text \<open>
  C2, as the code has it: for a total from 0 up to the safe integers (below \<open>2^53\<close>)
  the page count is \<open>max(1, ceil(total / 25))\<close>, the least count of pages of 25 that
  hold the total, and at least one; the page index of every reachable state is at least
  0; the controls are disabled as stated, so that \<open>next\<close> leads to an index below the
  page count and \<open>previous\<close> to an index that is still at least 0 and, from an index
  below the page count, still below it. (That the index is below the page count is not
  said of every reachable state.)
\<close>

theorem pagination_bounds:
  "(0 \<le> t \<and> t < 2 ^ 53 \<longrightarrow>
        pages t = max 1 \<lceil>real_of_int t / 25\<rceil>
        \<and> 1 \<le> pages t \<and> t \<le> 25 * pages t \<and> (\<forall>n. 1 \<le> n \<and> t \<le> 25 * n \<longrightarrow> pages t \<le> n))
   \<and> (reachable B c0 \<longrightarrow> 0 \<le> page (ui c0))
   \<and> (prev_disabled s \<longleftrightarrow> page s \<le> 0)
   \<and> (next_disabled s \<longleftrightarrow> pages (total s) \<le> page s + 1)
   \<and> (fire B Next c = Some c' \<longrightarrow>
        page (ui c') = page (ui c) + 1 \<and> total (ui c') = total (ui c)
        \<and> page (ui c') < pages (total (ui c')))
   \<and> (fire B Prev d = Some d' \<longrightarrow>
        page (ui d') = page (ui d) - 1 \<and> total (ui d') = total (ui d) \<and> 0 \<le> page (ui d')
        \<and> (page (ui d) < pages (total (ui d)) \<longrightarrow> page (ui d') < pages (total (ui d'))))"
proof (intro conjI impI)
  show "pages t = max 1 \<lceil>real_of_int t / 25\<rceil>" if "0 \<le> t \<and> t < 2 ^ 53"
    using that pages_exact [of t] ceiling_divide_eq_div [of t 25, where ?'a = real] by simp
  show "1 \<le> pages t" "t \<le> 25 * pages t" "\<forall>n. 1 \<le> n \<and> t \<le> 25 * n \<longrightarrow> pages t \<le> n"
    if "0 \<le> t \<and> t < 2 ^ 53"
    using that pages_least [of t] by blast+
  show "0 \<le> page (ui c0)" if "reachable B c0"
    using that by (rule reachable_page_nonneg)
  show "prev_disabled s \<longleftrightarrow> page s \<le> 0"
    by (simp add: prev_disabled_def)
  show "next_disabled s \<longleftrightarrow> pages (total s) \<le> page s + 1"
    by (simp add: next_disabled_def)
  show "page (ui c') = page (ui c) + 1" "total (ui c') = total (ui c)"
      "page (ui c') < pages (total (ui c'))" if "fire B Next c = Some c'"
    using fire_next [OF that] by blast+
  show "page (ui d') = page (ui d) - 1" "total (ui d') = total (ui d)" "0 \<le> page (ui d')"
    if "fire B Prev d = Some d'"
    using fire_prev [OF that] by blast+
  show "page (ui d') < pages (total (ui d'))"
    if "fire B Prev d = Some d'" and "page (ui d) < pages (total (ui d))"
    using fire_prev [OF that(1)] that(2) by simp
qed

theorem pagination_bounds_witness:
  "(0::int) \<le> 60 \<and> (60::int) < 2 ^ 53 \<and> pages 60 = 3
   \<and> reachable localhost
        \<lparr>ui = \<lparr>data = [], total = 100, q = [], listLoading = False, page = 0\<rparr>, pending = []\<rparr>
   \<and> fire localhost Next
        \<lparr>ui = \<lparr>data = [], total = 100, q = [], listLoading = False, page = 0\<rparr>, pending = []\<rparr>
       = Some \<lparr>ui = \<lparr>data = [], total = 100, q = [], listLoading = True, page = 1\<rparr>,
               pending = [load_request localhost
                            \<lparr>data = [], total = 100, q = [], listLoading = False, page = 1\<rparr>]\<rparr>
   \<and> (1::int) < pages 100
   \<and> fire localhost Prev
        \<lparr>ui = \<lparr>data = [], total = 100, q = [], listLoading = False, page = 1\<rparr>, pending = []\<rparr>
       = Some \<lparr>ui = \<lparr>data = [], total = 100, q = [], listLoading = True, page = 0\<rparr>,
               pending = [load_request localhost
                            \<lparr>data = [], total = 100, q = [], listLoading = False, page = 0\<rparr>]\<rparr>
   \<and> (0::int) < pages 100"
proof -
  let ?c1 = "\<lparr>ui = \<lparr>data = [], total = 100, q = [], listLoading = False, page = 0\<rparr>, pending = []\<rparr>"
  let ?c2 = "\<lparr>ui = \<lparr>data = [], total = 100, q = [], listLoading = True, page = 1\<rparr>,
              pending = [load_request localhost
                           \<lparr>data = [], total = 100, q = [], listLoading = False, page = 1\<rparr>]\<rparr>"
  let ?d1 = "\<lparr>ui = \<lparr>data = [], total = 100, q = [], listLoading = False, page = 1\<rparr>, pending = []\<rparr>"
  let ?d2 = "\<lparr>ui = \<lparr>data = [], total = 100, q = [], listLoading = True, page = 0\<rparr>,
              pending = [load_request localhost
                           \<lparr>data = [], total = 100, q = [], listLoading = False, page = 0\<rparr>]\<rparr>"
  have n: "fire localhost Next ?c1 = Some ?c2"
    by (simp add: prices_eval load_request_def)
  have p: "fire localhost Prev ?d1 = Some ?d2"
    by (simp add: prices_eval load_request_def)
  have e: "pages 60 = 3"
    by (simp add: pages_examples)
  from pagination_bounds [of 60 localhost ?c1 "ui ?c1" ?c1 ?c2 ?d1 ?d2] reachable_first_page n p e
  show ?thesis
    by (simp add: pages_examples)
qed

text \<open>
  C2 as stated fails: after the first page of a hundred items has loaded, the user goes
  to the second page and that request gets no response; the total is then 0, the page
  count 1, and the page index still 1.
\<close>

theorem page_index_reaches_page_count:
  "run localhost [Settle 0 hundred_items, Next, Settle 0 no_network] (prices_mount localhost)
     = Some \<lparr>ui = \<lparr>data = [], total = 0, q = [], listLoading = False, page = 1\<rparr>, pending = []\<rparr>
   \<and> \<not> page \<lparr>data = [], total = 0, q = [], listLoading = False, page = 1\<rparr>
         < pages (total \<lparr>data = [], total = 0, q = [], listLoading = False, page = 1\<rparr>)"
  by (simp add: prices_eval hundred_items_def no_network_def)

text \<open>
  C7, at the input where the code departs from it: on the third page, with the search
  text \<open> shirt\<close>, running the search leaves two requests pending. The first is the one
  the handler's own \<open>load\<close> issued, with the offset 50 of the render it belongs to; the
  second is the one the effect on \<open>page\<close> issued after the reset, with the offset 0.
\<close>

theorem search_from_third_page:
  "map_option (\<lambda>c. (page (ui c), map query (pending c)))
     (run localhost
        [Settle 0 hundred_items, Next, Settle 0 hundred_items, Next, Settle 0 hundred_items,
         ChangeText (ascii '' shirt''), Search]
        (prices_mount localhost))
   = Some (0, [[(ascii ''limit'', ascii ''25''), (ascii ''offset'', ascii ''50''),
                (ascii ''q'', ascii ''shirt'')],
               [(ascii ''limit'', ascii ''25''), (ascii ''offset'', ascii ''0''),
                (ascii ''q'', ascii ''shirt'')]])"
proof -
  have "trim (ascii '' shirt'') \<noteq> []"
    unfolding trim_shirt by (simp add: ascii_def)
  then show ?thesis
    by (simp add: prices_eval hundred_items_def query_load_request String_int_examples trim_shirt)
qed

text \<open>
  A search run on the first page issues one request, with the limit 25, the offset 0 and
  the trimmed search text, which is left out when it is empty.
\<close>

theorem search_on_first_page:
  assumes "page (ui c) = 0"
  shows "runSearch B c
     = c\<lparr>ui := (ui c)\<lparr>listLoading := True\<rparr>, pending := pending c @ [load_request B (ui c)]\<rparr>
   \<and> query (load_request B (ui c))
     = [(ascii ''limit'', ascii ''25''), (ascii ''offset'', ascii ''0'')]
       @ (if trim (q (ui c)) \<noteq> [] then [(ascii ''q'', trim (q (ui c)))] else [])"
  using assms
  by (simp add: runSearch_def page_effect_def load_prices_def setPage_def query_load_request
      String_int_examples)

theorem search_on_first_page_witness:
  "page (ui (prices_mount localhost)) = 0
   \<and> map query (pending (runSearch localhost (prices_mount localhost)))
     = [[(ascii ''limit'', ascii ''25''), (ascii ''offset'', ascii ''0'')],
        [(ascii ''limit'', ascii ''25''), (ascii ''offset'', ascii ''0'')]]"
proof -
  have z: "page (ui (prices_mount localhost)) = 0"
    by (simp add: prices_mount_def load_prices_def prices_first_render_def)
  have e: "trim (q (ui (prices_mount localhost))) = []"
    by (simp add: prices_mount_def load_prices_def prices_first_render_def trim_def)
  from search_on_first_page [OF z, of localhost] z e show ?thesis
    by (simp add: prices_mount_def load_prices_def prices_first_render_def query_load_request
        String_int_examples trim_def)
qed

text \<open>
  Whatever the page, running the search sets the page index to 0, and the request issued
  last carries the limit 25, the offset 0 and the trimmed search text.
\<close>

theorem search_resets_page:
  "page (ui (runSearch B c)) = 0
   \<and> query (last (pending (runSearch B c)))
     = [(ascii ''limit'', ascii ''25''), (ascii ''offset'', ascii ''0'')]
       @ (if trim (q (ui c)) \<noteq> [] then [(ascii ''q'', trim (q (ui c)))] else [])"
  by (simp add: runSearch_def page_effect_def load_prices_def setPage_def query_load_request
      String_int_examples)

section \<open>Properties of the currency formatter\<close>

lemma decimal_examples: "decimal (ascii ''12'') = Some 12" "decimal (ascii ''abc'') = None"
  by (simp_all add: decimal_def ascii_def isDigit_def)

text \<open>
  C10: \<open>fmtCurrency\<close> returns a string on every argument and never lets an exception
  escape: the placeholder for \<open>null\<close>, \<open>undefined\<close> and the empty string; a string
  that does not read as a number, unchanged; for a number, and for a string that reads
  as one, what the locale formatter prints, or \<open>String(val)\<close> when the formatter throws.
\<close>

theorem fmtCurrency_total:
  "(\<exists>t. fmtCurrency P n currency = Inr t)
   \<and> fmtCurrency P Null currency = Inr placeholder
   \<and> fmtCurrency P Undefined currency = Inr placeholder
   \<and> fmtCurrency P (Str []) currency = Inr placeholder
   \<and> (s \<noteq> [] \<and> isNaN P (Number P s) \<longrightarrow> fmtCurrency P (Str s) currency = Inr s)
   \<and> (\<not> isNaN P x \<longrightarrow>
        fmtCurrency P (Num x) currency
        = Inr (case format_currency P currency x of Inr t \<Rightarrow> t | Inl e \<Rightarrow> String_number P x))
   \<and> (s \<noteq> [] \<and> \<not> isNaN P (Number P s) \<longrightarrow>
        fmtCurrency P (Str s) currency
        = Inr (case format_currency P currency (Number P s) of
                 Inr t \<Rightarrow> t | Inl e \<Rightarrow> String_number P (Number P s)))"
  by (auto simp: fmtCurrency_def format_val_def String_amount_def split: amount.splits sum.splits)

theorem fmtCurrency_total_witness:
  "fmtCurrency sample_numbers (Str (ascii ''abc'')) (ascii ''USD'') = Inr (ascii ''abc'')
   \<and> fmtCurrency sample_numbers (Num (Some 12)) (ascii ''USD'') = Inr (ascii ''$12.00'')
   \<and> fmtCurrency sample_numbers (Num (Some 12)) (ascii ''usd1'') = Inr (ascii ''12'')
   \<and> fmtCurrency sample_numbers (Str (ascii ''12'')) (ascii ''USD'') = Inr (ascii ''$12.00'')"
proof -
  have i: "String_int 12 = ascii ''12''"
    by code_simp
  have u: "ascii ''usd1'' \<noteq> ascii ''USD''"
    by (simp add: ascii_def)
  have a: "ascii ''abc'' \<noteq> []" "ascii ''12'' \<noteq> []"
    by (simp_all add: ascii_def)
  have d: "ascii ''$'' @ ascii ''12'' @ ascii ''.00'' = ascii ''$12.00''"
    by (simp add: ascii_def)
  from fmtCurrency_total [of sample_numbers "Null" "ascii ''USD''" "ascii ''abc''" "Some 12"]
    fmtCurrency_total [of sample_numbers "Null" "ascii ''usd1''" "ascii ''12''" "Some 12"]
    fmtCurrency_total [of sample_numbers "Null" "ascii ''USD''" "ascii ''12''" "Some 12"]
  show ?thesis
    using a u by (simp add: sample_numbers_def decimal_examples i d)
qed

end
